theory Spec2Isabelle
  imports Main
begin

section \<open>The loki database lifecycle of gatsby (packages/gatsby/src/db/loki/index.js)\<close>

text \<open>
  The module keeps one module-level variable \<open>db\<close>, the handle of the lokijs engine, and
  exports \<open>start\<close>, \<open>getDb\<close>, \<open>colls\<close> and \<open>saveState\<close>. Everything else it touches
  is a collaborator the module only calls: lodash, fs-extra, path, uuid and the lokijs
  engine. The embedding passes the module variable explicitly (the record \<open>world\<close>),
  records every call that leaves the module as an event of a trace, and takes what the
  collaborators answer from a record of their results (\<open>env\<close>). A promise becomes the
  value it settles to.
\<close>

subsection \<open>JavaScript values\<close>

text \<open>
  The values \<open>start\<close> and \<open>saveState\<close> tell apart: a number is an integer or NaN
  (only being zero or NaN matters to the code), \<open>JError m\<close> is an \<open>Error\<close> object with
  message \<open>m\<close>, \<open>JTypeError\<close> a \<open>TypeError\<close> raised by the runtime, and \<open>JObj n\<close> any
  other object (array, function, plain object, error of a collaborator), \<open>n\<close> being its
  identity. String wrapper objects (\<open>new String(..)\<close>) are not modelled.
\<close>

datatype jsval =
    JUndefined
  | JNull
  | JBool bool
  | JNum int
  | JNaN
  | JStr string
  | JError string
  | JTypeError
  | JObj nat

text \<open>The truthiness test of \<open>if (v)\<close> and \<open>v && ...\<close>.\<close>

fun truthy :: "jsval \<Rightarrow> bool" where
  "truthy JUndefined = False"
| "truthy JNull = False"
| "truthy (JBool b) = b"
| "truthy (JNum n) = (n \<noteq> 0)"
| "truthy JNaN = False"
| "truthy (JStr s) = (s \<noteq> [])"
| "truthy (JError m) = True"
| "truthy JTypeError = True"
| "truthy (JObj n) = True"

text \<open>lodash's \<open>_.isString\<close> on the values above.\<close>

fun isString :: "jsval \<Rightarrow> bool" where
  "isString (JStr s) = True"
| "isString v = False"

text \<open>What a promise settles to; \<open>Pending\<close> is a promise that never settles.\<close>

datatype settled = Resolved | Rejected jsval | Pending

subsection \<open>The engine handle and the meta-collections\<close>

record collOptions =
  unique :: "string list"
  indices :: "string list"

record collInfo =
  name :: string
  options :: collOptions

text \<open>
  The constant \<open>colls\<close> of the source: an object with the keys \<open>nodeMeta\<close> and
  \<open>nodeTypes\<close>, in this order.
\<close>

definition colls :: "(string \<times> collInfo) list" where
  "colls =
     [(''nodeMeta'',
        \<lparr>name = ''gatsby:nodeMeta'',
         options = \<lparr>unique = [''id''], indices = [''id'']\<rparr>\<rparr>),
      (''nodeTypes'',
        \<lparr>name = ''gatsby:nodeTypes'',
         options = \<lparr>unique = [''type'', ''collName''], indices = [''type'']\<rparr>\<rparr>)]"

type_synonym doc = "(string \<times> jsval) list"

record collection =
  cname :: string
  coptions :: collOptions
  cdata :: "doc list"

record loki =
  filename :: string
  autoload :: bool
  collections :: "collection list"

text \<open>
  Modelled from the spec: the engine's \<open>addCollection\<close> (lokijs is not part of the
  repository). Section 6 (c) asks for "add-collection(name, {unique, indices})
  idempotently", and section 4.1 says a collection "is created if it does not already
  exist": the engine looks the name up among its collections, hands back the one it
  finds and leaves the handle as it is, and otherwise appends a new, empty collection
  with the options given. The source drops the value \<open>addCollection\<close> returns, so the
  model returns the handle only.
\<close>

definition addCollection :: "loki \<Rightarrow> string \<Rightarrow> collOptions \<Rightarrow> loki" where
  "addCollection h n opts =
     (case find (\<lambda>c. cname c = n) (collections h) of
        Some c \<Rightarrow> h
      | None \<Rightarrow>
          h\<lparr>collections := collections h @ [\<lparr>cname = n, coptions = opts, cdata = []\<rparr>]\<rparr>)"

text \<open>\<open>_.forEach(colls, collInfo => db.addCollection(name, options))\<close>\<close>

definition ensureNodeCollections :: "loki \<Rightarrow> loki" where
  "ensureNodeCollections h =
     foldl (\<lambda>d (k, collInfo). addCollection d (name collInfo) (options collInfo)) h colls"

text \<open>How many collections of a handle carry a name.\<close>

definition countColl :: "string \<Rightarrow> loki \<Rightarrow> nat" where
  "countColl n h = length (filter (\<lambda>c. cname c = n) (collections h))"

subsection \<open>The module state, the collaborators and the effects\<close>

text \<open>
  A call that leaves the module: \<open>fs.ensureDir(dir)\<close>, \<open>new loki(name, options)\<close> (with
  whether \<open>autoload\<close> was asked for) and \<open>db.saveDatabase(cb)\<close> (with the handle that is
  saved).
\<close>

datatype event =
    EnsureDir string
  | NewLoki string bool
  | SaveDatabase loki

record world =
  db :: "loki option"
  trace :: "event list"

definition initial_world :: world where
  "initial_world = \<lparr>db = None, trace = []\<rparr>"

text \<open>
  What the collaborators answer:
  \<^item> \<open>uuidv4\<close>: the string \<open>uuidv4()\<close> returns;
  \<^item> \<open>dirname\<close>: \<open>path.dirname\<close>;
  \<^item> \<open>ensureDir\<close>: what the promise of \<open>fs.ensureDir(dir)\<close> settles to;
  \<^item> \<open>autoloadResult\<close>: for \<open>new loki(file, {autoload: true, autoloadCallback})\<close>, the
    argument \<open>err\<close> the engine passes to the callback, with the collections the engine
    holds by then (what it loaded from the file); \<open>None\<close> when it never calls back;
  \<^item> \<open>saveResult\<close>: the argument \<open>err\<close> the engine passes to the callback of
    \<open>saveDatabase\<close>; \<open>None\<close> when it never calls back.
\<close>

record env =
  uuidv4 :: string
  dirname :: "string \<Rightarrow> string"
  ensureDir :: "string \<Rightarrow> settled"
  autoloadResult :: "string \<Rightarrow> (jsval \<times> collection list) option"
  saveResult :: "loki \<Rightarrow> jsval option"

subsection \<open>The functions of the module\<close>

text \<open>
  \<open>startFileDb\<close>: the executor assigns \<open>db = new loki(saveFile, dbOptions)\<close> at once; the
  promise settles in \<open>autoloadCallback\<close>, rejected with \<open>err\<close> when \<open>err\<close> is truthy.
\<close>

definition startFileDb :: "env \<Rightarrow> string \<Rightarrow> world \<Rightarrow> settled \<times> world" where
  "startFileDb e saveFile w =
     (let h = \<lparr>filename = saveFile, autoload = True, collections = []\<rparr>;
          w1 = w\<lparr>db := Some h, trace := trace w @ [NewLoki saveFile True]\<rparr>
      in case autoloadResult e saveFile of
           None \<Rightarrow> (Pending, w1)
         | Some (err, cs) \<Rightarrow>
             (let w2 = w1\<lparr>db := Some (h\<lparr>collections := cs\<rparr>)\<rparr>
              in if truthy err then (Rejected err, w2) else (Resolved, w2)))"

text \<open>\<open>startInMemory\<close>: \<open>db = new loki(uuidv4())\<close>.\<close>

definition startInMemory :: "env \<Rightarrow> world \<Rightarrow> settled \<times> world" where
  "startInMemory e w =
     (Resolved,
      w\<lparr>db := Some \<lparr>filename = uuidv4 e, autoload = False, collections = []\<rparr>,
        trace := trace w @ [NewLoki (uuidv4 e) False]\<rparr>)"

text \<open>
  The argument of \<open>start({ saveFile } = {})\<close>: left out (or \<open>undefined\<close>), \<open>null\<close>, or
  an object, given by its properties.
\<close>

datatype jsarg = Omitted | NullArg | Object "string \<rightharpoonup> jsval"

text \<open>
  The destructuring \<open>{ saveFile } = {}\<close>: the default \<open>{}\<close> stands in for a missing
  argument, a missing property reads as \<open>undefined\<close>, and \<open>null\<close> cannot be
  destructured (a \<open>TypeError\<close>).
\<close>

fun destructure :: "jsarg \<Rightarrow> jsval option" where
  "destructure Omitted = Some JUndefined"
| "destructure NullArg = None"
| "destructure (Object props) =
     (case props ''saveFile'' of None \<Rightarrow> Some JUndefined | Some v \<Rightarrow> Some v)"

text \<open>
  The last statement of \<open>start\<close>, \<open>ensureNodeCollections(db)\<close>, on the module variable:
  \<open>db.addCollection\<close> on \<open>undefined\<close> would be a \<open>TypeError\<close>.
\<close>

definition ensureOnDb :: "world \<Rightarrow> settled \<times> world" where
  "ensureOnDb w =
     (case db w of
        None \<Rightarrow> (Rejected JTypeError, w)
      | Some h \<Rightarrow> (Resolved, w\<lparr>db := Some (ensureNodeCollections h)\<rparr>))"

text \<open>
  \<open>start\<close>. An \<open>await\<close> on a rejected promise rejects \<open>start\<close> with the same value, an
  \<open>await\<close> on a promise that never settles leaves \<open>start\<close> pending. In the branch
  \<open>if (saveFile)\<close> the value is a string (the check before it has thrown otherwise).
\<close>

definition start :: "env \<Rightarrow> jsarg \<Rightarrow> world \<Rightarrow> settled \<times> world" where
  "start e arg w =
     (case destructure arg of
        None \<Rightarrow> (Rejected JTypeError, w)
      | Some saveFile \<Rightarrow>
          if truthy saveFile \<and> \<not> isString saveFile
          then (Rejected (JError ''saveFile must be a path''), w)
          else if truthy saveFile then
            (case saveFile of
               JStr s \<Rightarrow>
                 (let saveDir = dirname e s;
                      w1 = w\<lparr>trace := trace w @ [EnsureDir saveDir]\<rparr>
                  in case ensureDir e saveDir of
                       Rejected err \<Rightarrow> (Rejected err, w1)
                     | Pending \<Rightarrow> (Pending, w1)
                     | Resolved \<Rightarrow>
                         (case startFileDb e s w1 of
                            (Resolved, w2) \<Rightarrow> ensureOnDb w2
                          | (r, w2) \<Rightarrow> (r, w2)))
             | _ \<Rightarrow> (Rejected JTypeError, w))
          else
            (case startInMemory e w of
               (Resolved, w1) \<Rightarrow> ensureOnDb w1
             | (r, w1) \<Rightarrow> (r, w1)))"

text \<open>
  \<open>saveState\<close>: with a handle, \<open>db.saveDatabase\<close> is called once and the promise settles
  in its callback; without one the promise is rejected with a string.
\<close>

definition saveState :: "env \<Rightarrow> world \<Rightarrow> settled \<times> world" where
  "saveState e w =
     (case db w of
        Some h \<Rightarrow>
          (let w1 = w\<lparr>trace := trace w @ [SaveDatabase h]\<rparr>
           in case saveResult e h of
                None \<Rightarrow> (Pending, w1)
              | Some err \<Rightarrow> if truthy err then (Rejected err, w1) else (Resolved, w1))
      | None \<Rightarrow> (Rejected (JStr ''No database found.''), w))"

text \<open>\<open>getDb\<close>: the module variable, \<open>None\<close> for \<open>undefined\<close>.\<close>

definition getDb :: "world \<Rightarrow> loki option" where
  "getDb w = db w"

subsection \<open>Vocabulary of the properties\<close>

text \<open>
  The engine's lookup of a collection by name (\<open>db.getCollection(name)\<close>: the first
  collection of that name), as \<open>addCollection\<close> above looks it up.
\<close>

definition getCollection :: "loki \<Rightarrow> string \<Rightarrow> collection option" where
  "getCollection h n = find (\<lambda>c. cname c = n) (collections h)"

text \<open>
  The collections the engine loaded from the save file during a call of \<open>start\<close>: none
  when \<open>start\<close> does not open a file, or when the engine never calls back.
\<close>

definition loadedCollections :: "env \<Rightarrow> jsarg \<Rightarrow> collection list" where
  "loadedCollections e arg =
     (case destructure arg of
        Some (JStr s) \<Rightarrow>
          (if s \<noteq> [] then
             (case autoloadResult e s of Some (err, cs) \<Rightarrow> cs | None \<Rightarrow> [])
           else [])
      | _ \<Rightarrow> [])"

text \<open>The configuration of the collection of a given name in the current handle.\<close>

definition metaConfig :: "world \<Rightarrow> string \<Rightarrow> collOptions option" where
  "metaConfig w n =
     (case getDb w of None \<Rightarrow> None | Some h \<Rightarrow> map_option coptions (getCollection h n))"

text \<open>
  Both meta-collections are in the handle with the configuration \<open>colls\<close> declares.
\<close>

definition declaredConfig :: "world \<Rightarrow> bool" where
  "declaredConfig w = list_all (\<lambda>(k, ci). metaConfig w (name ci) = Some (options ci)) colls"


subsection \<open>Sample collaborators\<close>

text \<open>
  \<open>quiet_env\<close>: every collaborator succeeds and the save file does not exist yet.
  \<open>corrupt_env\<close>: the engine cannot parse the save file. \<open>legacy_env\<close>: the save file
  holds a collection \<open>gatsby:nodeMeta\<close> that was saved without constraints and
  indices. \<open>diskfull_env\<close>: the engine's write fails with an error object.
  \<open>readonly_env\<close>: the directory of the save file cannot be created.
\<close>

definition quiet_env :: env where
  "quiet_env =
     \<lparr>uuidv4 = ''1b9d6bcd-bbfd-4b2d-9b5d-ab8dfbbd4bed'',
      dirname = (\<lambda>p. if p = ''/tmp/x/db.json'' then ''/tmp/x'' else ''.''),
      ensureDir = (\<lambda>d. Resolved),
      autoloadResult = (\<lambda>f. Some (JNull, [])),
      saveResult = (\<lambda>h. Some JNull)\<rparr>"


definition legacy_env :: env where
  "legacy_env =
     quiet_env\<lparr>autoloadResult :=
       (\<lambda>f. Some (JNull,
          [\<lparr>cname = ''gatsby:nodeMeta'', coptions = \<lparr>unique = [], indices = []\<rparr>,
            cdata = []\<rparr>]))\<rparr>"

definition diskfull_env :: env where
  "diskfull_env = quiet_env\<lparr>saveResult := (\<lambda>h. Some (JObj 28))\<rparr>"


definition sample_arg :: jsarg where
  "sample_arg = Object [''saveFile'' \<mapsto> JStr ''/tmp/x/db.json'']"

section \<open>Properties\<close>

subsection \<open>Adding a collection\<close>

lemma ensureNodeCollections_unfold:
  "ensureNodeCollections h =
     addCollection
       (addCollection h ''gatsby:nodeMeta'' \<lparr>unique = [''id''], indices = [''id'']\<rparr>)
       ''gatsby:nodeTypes'' \<lparr>unique = [''type'', ''collName''], indices = [''type'']\<rparr>"
  by (simp add: ensureNodeCollections_def colls_def)

lemma find_None_countColl: "(find (\<lambda>c. cname c = n) (collections h) = None) = (countColl n h = 0)"
  by (auto simp: countColl_def find_None_iff filter_empty_conv)

lemma addCollection_present:
  "countColl n h \<noteq> 0 \<Longrightarrow> addCollection h n opts = h"
  by (cases "find (\<lambda>c. cname c = n) (collections h)")
     (simp_all add: addCollection_def find_None_countColl)

lemma countColl_addCollection_same:
  "countColl n (addCollection h n opts) = max 1 (countColl n h)"
proof (cases "countColl n h = 0")
  case True
  then have "find (\<lambda>c. cname c = n) (collections h) = None"
    by (simp add: find_None_countColl)
  then have "countColl n (addCollection h n opts) = Suc (countColl n h)"
    by (simp add: addCollection_def countColl_def)
  with True show ?thesis by simp
next
  case False
  then show ?thesis by (simp add: addCollection_present max_def)
qed

lemma countColl_addCollection_other:
  "m \<noteq> n \<Longrightarrow> countColl m (addCollection h n opts) = countColl m h"
  by (cases "find (\<lambda>c. cname c = n) (collections h)")
     (auto simp: addCollection_def countColl_def)

lemma countColl_ensure_nodeMeta:
  "countColl ''gatsby:nodeMeta'' (ensureNodeCollections h) = max 1 (countColl ''gatsby:nodeMeta'' h)"
  by (simp add: ensureNodeCollections_unfold countColl_addCollection_other countColl_addCollection_same)

lemma countColl_ensure_nodeTypes:
  "countColl ''gatsby:nodeTypes'' (ensureNodeCollections h) = max 1 (countColl ''gatsby:nodeTypes'' h)"
  by (simp add: ensureNodeCollections_unfold countColl_addCollection_other countColl_addCollection_same)

lemma ensureNodeCollections_fixed:
  assumes "countColl ''gatsby:nodeMeta'' h \<noteq> 0" and "countColl ''gatsby:nodeTypes'' h \<noteq> 0"
  shows "ensureNodeCollections h = h"
  using assms by (simp add: ensureNodeCollections_unfold addCollection_present)


lemma find_snoc:
  "find P (xs @ [y]) = (case find P xs of Some x \<Rightarrow> Some x | None \<Rightarrow> if P y then Some y else None)"
  by (induction xs) auto

lemma getCollection_addCollection_same:
  "getCollection (addCollection h n opts) n =
     (case getCollection h n of
        Some c \<Rightarrow> Some c
      | None \<Rightarrow> Some \<lparr>cname = n, coptions = opts, cdata = []\<rparr>)"
  by (simp add: getCollection_def addCollection_def find_snoc split: option.splits)

lemma getCollection_addCollection_other:
  "m \<noteq> n \<Longrightarrow> getCollection (addCollection h n opts) m = getCollection h m"
  by (simp add: getCollection_def addCollection_def find_snoc split: option.splits)

lemma getCollection_ensure_nodeMeta:
  "getCollection (ensureNodeCollections h) ''gatsby:nodeMeta'' =
     (case getCollection h ''gatsby:nodeMeta'' of
        Some c \<Rightarrow> Some c
      | None \<Rightarrow> Some \<lparr>cname = ''gatsby:nodeMeta'',
                       coptions = \<lparr>unique = [''id''], indices = [''id'']\<rparr>, cdata = []\<rparr>)"
  by (simp add: ensureNodeCollections_unfold getCollection_addCollection_other
        getCollection_addCollection_same)

lemma getCollection_ensure_nodeTypes:
  "getCollection (ensureNodeCollections h) ''gatsby:nodeTypes'' =
     (case getCollection h ''gatsby:nodeTypes'' of
        Some c \<Rightarrow> Some c
      | None \<Rightarrow> Some \<lparr>cname = ''gatsby:nodeTypes'',
                       coptions = \<lparr>unique = [''type'', ''collName''], indices = [''type'']\<rparr>,
                       cdata = []\<rparr>)"
  by (simp add: ensureNodeCollections_unfold getCollection_addCollection_other
        getCollection_addCollection_same)

lemma getCollection_ensure_find:
  "getCollection (ensureNodeCollections h) ''gatsby:nodeMeta'' =
     (case find (\<lambda>c. cname c = ''gatsby:nodeMeta'') (collections h) of
        Some c \<Rightarrow> Some c
      | None \<Rightarrow> Some \<lparr>cname = ''gatsby:nodeMeta'',
                       coptions = \<lparr>unique = [''id''], indices = [''id'']\<rparr>, cdata = []\<rparr>)"
  "getCollection (ensureNodeCollections h) ''gatsby:nodeTypes'' =
     (case find (\<lambda>c. cname c = ''gatsby:nodeTypes'') (collections h) of
        Some c \<Rightarrow> Some c
      | None \<Rightarrow> Some \<lparr>cname = ''gatsby:nodeTypes'',
                       coptions = \<lparr>unique = [''type'', ''collName''], indices = [''type'']\<rparr>,
                       cdata = []\<rparr>)"
  using getCollection_ensure_nodeMeta [of h] getCollection_ensure_nodeTypes [of h]
  by (simp_all add: getCollection_def [of h])

lemma collections_addCollection:
  "\<exists>new. collections (addCollection h n opts) = collections h @ new"
  by (simp add: addCollection_def split: option.splits)

lemma collections_ensureNodeCollections:
  "\<exists>new. collections (ensureNodeCollections h) = collections h @ new"
proof -
  let ?h1 = "addCollection h ''gatsby:nodeMeta'' \<lparr>unique = [''id''], indices = [''id'']\<rparr>"
  obtain n1 where n1: "collections ?h1 = collections h @ n1"
    using collections_addCollection by blast
  obtain n2 where n2: "collections (ensureNodeCollections h) = collections ?h1 @ n2"
    unfolding ensureNodeCollections_unfold using collections_addCollection by blast
  from n1 n2 have "collections (ensureNodeCollections h) = collections h @ (n1 @ n2)"
    by simp
  then show ?thesis by blast
qed

lemma ensureNodeCollections_filename:
  "filename (ensureNodeCollections h) = filename h \<and> autoload (ensureNodeCollections h) = autoload h"
  by (simp add: ensureNodeCollections_unfold addCollection_def split: option.splits)

subsection \<open>The shapes of a call of start\<close>

lemma ensureNodeCollections_fresh:
  "ensureNodeCollections \<lparr>filename = f, autoload = a, collections = []\<rparr> =
     \<lparr>filename = f, autoload = a,
      collections =
        [\<lparr>cname = ''gatsby:nodeMeta'',
          coptions = \<lparr>unique = [''id''], indices = [''id'']\<rparr>, cdata = []\<rparr>,
         \<lparr>cname = ''gatsby:nodeTypes'',
          coptions = \<lparr>unique = [''type'', ''collName''], indices = [''type'']\<rparr>,
          cdata = []\<rparr>]\<rparr>"
  by (simp add: ensureNodeCollections_unfold addCollection_def)

lemma start_in_memory:
  assumes "destructure arg = Some v" and "\<not> truthy v"
  shows "start e arg w =
     (Resolved,
      w\<lparr>db := Some (ensureNodeCollections
                     \<lparr>filename = uuidv4 e, autoload = False, collections = []\<rparr>),
        trace := trace w @ [NewLoki (uuidv4 e) False]\<rparr>)"
  using assms by (simp add: start_def startInMemory_def ensureOnDb_def)

lemma start_invalid:
  assumes "destructure arg = Some v" and "truthy v" and "\<not> isString v"
  shows "start e arg w = (Rejected (JError ''saveFile must be a path''), w)"
  using assms by (simp add: start_def)

lemma start_null: "start e NullArg w = (Rejected JTypeError, w)"
  by (simp add: start_def)

lemma start_file:
  assumes "destructure arg = Some (JStr s)" and "s \<noteq> []"
  shows "start e arg w =
     (case ensureDir e (dirname e s) of
        Rejected err \<Rightarrow> (Rejected err, w\<lparr>trace := trace w @ [EnsureDir (dirname e s)]\<rparr>)
      | Pending \<Rightarrow> (Pending, w\<lparr>trace := trace w @ [EnsureDir (dirname e s)]\<rparr>)
      | Resolved \<Rightarrow>
          (case autoloadResult e s of
             None \<Rightarrow>
               (Pending,
                w\<lparr>db := Some \<lparr>filename = s, autoload = True, collections = []\<rparr>,
                  trace := trace w @ [EnsureDir (dirname e s), NewLoki s True]\<rparr>)
           | Some (err, cs) \<Rightarrow>
               (if truthy err
                then (Rejected err,
                      w\<lparr>db := Some \<lparr>filename = s, autoload = True, collections = cs\<rparr>,
                        trace := trace w @ [EnsureDir (dirname e s), NewLoki s True]\<rparr>)
                else (Resolved,
                      w\<lparr>db := Some (ensureNodeCollections
                                     \<lparr>filename = s, autoload = True, collections = cs\<rparr>),
                        trace := trace w @ [EnsureDir (dirname e s), NewLoki s True]\<rparr>))))"
  using assms
  by (simp add: start_def startFileDb_def ensureOnDb_def Let_def
           split: settled.splits option.splits prod.splits)

lemma jsval_cases_start:
  "(truthy v \<and> \<not> isString v) \<or> (\<exists>s. v = JStr s \<and> s \<noteq> []) \<or> \<not> truthy v"
  by (cases v) auto

lemma destructure_sample_arg: "destructure sample_arg = Some (JStr ''/tmp/x/db.json'')"
  by (simp add: sample_arg_def)

section \<open>The claims\<close>

text \<open>
  C1. Ensuring the meta-collections is idempotent. For a handle on which
  \<open>ensureNodeCollections\<close> has run, running it again gives the same handle back: no
  error (the function is total) and no further collection. A handle that held at most
  one collection of each of the two names before the first run holds exactly one
  \<open>gatsby:nodeMeta\<close> and exactly one \<open>gatsby:nodeTypes\<close> after the second.
\<close>

theorem ensureNodeCollections_idempotent:
  "ensureNodeCollections (ensureNodeCollections h) = ensureNodeCollections h \<and>
   (countColl ''gatsby:nodeMeta'' h \<le> 1 \<longrightarrow>
      countColl ''gatsby:nodeMeta'' (ensureNodeCollections (ensureNodeCollections h)) = 1) \<and>
   (countColl ''gatsby:nodeTypes'' h \<le> 1 \<longrightarrow>
      countColl ''gatsby:nodeTypes'' (ensureNodeCollections (ensureNodeCollections h)) = 1)"
proof -
  have meta: "countColl ''gatsby:nodeMeta'' (ensureNodeCollections h) \<noteq> 0"
    by (simp add: countColl_ensure_nodeMeta)
  have types: "countColl ''gatsby:nodeTypes'' (ensureNodeCollections h) \<noteq> 0"
    by (simp add: countColl_ensure_nodeTypes)
  have again: "ensureNodeCollections (ensureNodeCollections h) = ensureNodeCollections h"
    using meta types by (rule ensureNodeCollections_fixed)
  show ?thesis
    by (simp add: again countColl_ensure_nodeMeta countColl_ensure_nodeTypes)
qed

theorem ensureNodeCollections_idempotent_witness:
  "ensureNodeCollections
     (ensureNodeCollections \<lparr>filename = ''db'', autoload = False, collections = []\<rparr>)
     = ensureNodeCollections \<lparr>filename = ''db'', autoload = False, collections = []\<rparr> \<and>
   countColl ''gatsby:nodeMeta'' \<lparr>filename = ''db'', autoload = False, collections = []\<rparr> \<le> 1 \<and>
   countColl ''gatsby:nodeMeta''
     (ensureNodeCollections
        (ensureNodeCollections \<lparr>filename = ''db'', autoload = False, collections = []\<rparr>)) = 1 \<and>
   countColl ''gatsby:nodeTypes'' \<lparr>filename = ''db'', autoload = False, collections = []\<rparr> \<le> 1 \<and>
   countColl ''gatsby:nodeTypes''
     (ensureNodeCollections
        (ensureNodeCollections \<lparr>filename = ''db'', autoload = False, collections = []\<rparr>)) = 1"
proof -
  let ?h = "\<lparr>filename = ''db'', autoload = False, collections = []\<rparr>"
  have fresh: "countColl ''gatsby:nodeMeta'' ?h \<le> 1" "countColl ''gatsby:nodeTypes'' ?h \<le> 1"
    by (simp_all add: countColl_def)
  from ensureNodeCollections_idempotent [of ?h] fresh show ?thesis
    by blast
qed

text \<open>
  C2, as stated: after every successful \<open>start\<close> the handle holds the two
  meta-collections with the declared configuration. It fails for a save file that
  already holds a collection of one of the two names with another configuration:
  \<open>addCollection\<close> finds the name and leaves the collection as it was loaded.
\<close>

theorem start_meta_config_counterexample:
  "fst (start legacy_env sample_arg initial_world) = Resolved \<and>
   metaConfig (snd (start legacy_env sample_arg initial_world)) ''gatsby:nodeMeta''
     = Some \<lparr>unique = [], indices = []\<rparr> \<and>
   \<not> declaredConfig (snd (start legacy_env sample_arg initial_world))"
  by (simp add: start_file [OF destructure_sample_arg] legacy_env_def quiet_env_def
        initial_world_def metaConfig_def declaredConfig_def getDb_def colls_def
        getCollection_ensure_find)

text \<open>
  C2, amended. After every successful \<open>start\<close> there is a handle, and for each of the
  two names of \<open>colls\<close> the collection the handle answers for that name is the one
  loaded from the save file if the file held one of that name (kept as loaded), and
  otherwise a new, empty collection with the declared configuration: \<open>unique [id]\<close>,
  \<open>indices [id]\<close> for \<open>gatsby:nodeMeta\<close>, \<open>unique [type, collName]\<close>, \<open>indices [type]\<close>
  for \<open>gatsby:nodeTypes\<close>. When nothing was loaded (always so in memory) both carry the
  declared configuration.
\<close>

theorem start_meta_collections:
  assumes "start e arg w = (Resolved, w')"
  shows "\<exists>h. getDb w' = Some h \<and>
     list_all
       (\<lambda>(k, ci). getCollection h (name ci) =
          (case find (\<lambda>c. cname c = name ci) (loadedCollections e arg) of
             Some c \<Rightarrow> Some c
           | None \<Rightarrow> Some \<lparr>cname = name ci, coptions = options ci, cdata = []\<rparr>))
       colls \<and>
     (loadedCollections e arg = [] \<longrightarrow> declaredConfig w')"
proof (cases "destructure arg")
  case None
  with assms show ?thesis by (simp add: start_def)
next
  case (Some v)
  from jsval_cases_start [of v] consider
      (invalid) "truthy v" "\<not> isString v"
    | (filedb) s where "v = JStr s" "s \<noteq> []"
    | (memory) "\<not> truthy v"
    by blast
  then show ?thesis
  proof cases
    case invalid
    with Some assms show ?thesis by (simp add: start_invalid)
  next
    case memory
    have loaded: "loadedCollections e arg = []"
      using Some memory by (cases v) (simp_all add: loadedCollections_def)
    have w': "w' = w\<lparr>db := Some (ensureNodeCollections
                     \<lparr>filename = uuidv4 e, autoload = False, collections = []\<rparr>),
        trace := trace w @ [NewLoki (uuidv4 e) False]\<rparr>"
      using assms start_in_memory [OF Some memory, of e w] by simp
    show ?thesis
      by (simp add: w' loaded getDb_def colls_def getCollection_ensure_find
            declaredConfig_def metaConfig_def split: option.splits)
  next
    case filedb
    have d: "destructure arg = Some (JStr s)" using Some filedb by simp
    from assms start_file [OF d filedb(2), of e w]
    obtain err cs where load: "autoloadResult e s = Some (err, cs)" "\<not> truthy err"
      and w': "w' = w\<lparr>db := Some (ensureNodeCollections
                                     \<lparr>filename = s, autoload = True, collections = cs\<rparr>),
                        trace := trace w @ [EnsureDir (dirname e s), NewLoki s True]\<rparr>"
      by (auto split: settled.splits option.splits prod.splits if_splits)
    have loaded: "loadedCollections e arg = cs"
      using d filedb(2) load by (simp add: loadedCollections_def)
    show ?thesis
      by (simp add: w' loaded getDb_def colls_def getCollection_ensure_find
            declaredConfig_def metaConfig_def split: option.splits)
  qed
qed

theorem start_meta_collections_witness:
  "start quiet_env sample_arg initial_world =
     (Resolved,
      \<lparr>db = Some (ensureNodeCollections
                   \<lparr>filename = ''/tmp/x/db.json'', autoload = True, collections = []\<rparr>),
       trace = [EnsureDir ''/tmp/x'', NewLoki ''/tmp/x/db.json'' True]\<rparr>) \<and>
   loadedCollections quiet_env sample_arg = [] \<and>
   declaredConfig
     \<lparr>db = Some (ensureNodeCollections
                  \<lparr>filename = ''/tmp/x/db.json'', autoload = True, collections = []\<rparr>),
      trace = [EnsureDir ''/tmp/x'', NewLoki ''/tmp/x/db.json'' True]\<rparr>"
proof -
  have run: "start quiet_env sample_arg initial_world =
     (Resolved,
      \<lparr>db = Some (ensureNodeCollections
                   \<lparr>filename = ''/tmp/x/db.json'', autoload = True, collections = []\<rparr>),
       trace = [EnsureDir ''/tmp/x'', NewLoki ''/tmp/x/db.json'' True]\<rparr>)"
    by (simp add: start_file [OF destructure_sample_arg] quiet_env_def initial_world_def)
  have loaded: "loadedCollections quiet_env sample_arg = []"
    by (simp add: loadedCollections_def destructure_sample_arg quiet_env_def)
  from start_meta_collections [OF run] loaded run show ?thesis
    by blast
qed

text \<open>
  C3. Without a handle (\<open>start\<close> was never called: the module variable is still
  \<open>undefined\<close>) \<open>saveState\<close> rejects, with the string \<open>No database found.\<close>, and calls
  nothing.
\<close>

theorem saveState_without_db:
  assumes "getDb w = None"
  shows "saveState e w = (Rejected (JStr ''No database found.''), w)"
  using assms by (simp add: saveState_def getDb_def)

theorem saveState_without_db_witness:
  "getDb initial_world = None \<and>
   saveState quiet_env initial_world = (Rejected (JStr ''No database found.''), initial_world)"
proof -
  have unset: "getDb initial_world = None"
    by (simp add: getDb_def initial_world_def)
  from saveState_without_db [OF unset, of quiet_env] unset show ?thesis
    by simp
qed

text \<open>
  C4, as stated: every \<open>saveFile\<close> that is present and not a string makes \<open>start\<close> fail
  and create no handle. It fails for the number \<open>0\<close>: the check is
  \<open>saveFile && !_.isString(saveFile)\<close>, a falsy value passes it and \<open>start\<close> goes on in
  memory.
\<close>

theorem start_non_string_counterexample:
  "fst (start quiet_env (Object [''saveFile'' \<mapsto> JNum 0]) initial_world) = Resolved \<and>
   getDb (snd (start quiet_env (Object [''saveFile'' \<mapsto> JNum 0]) initial_world)) =
     Some (ensureNodeCollections
            \<lparr>filename = ''1b9d6bcd-bbfd-4b2d-9b5d-ab8dfbbd4bed'', autoload = False,
             collections = []\<rparr>)"
  by (simp add: start_in_memory [of _ "JNum 0"] quiet_env_def initial_world_def getDb_def)

text \<open>
  C4, amended. For every \<open>saveFile\<close> that is truthy and not a string, \<open>start\<close> rejects
  with the error \<open>saveFile must be a path\<close> and leaves the module as it was: no handle
  is created and no collaborator is called.
\<close>

theorem start_rejects_truthy_non_string:
  assumes "props ''saveFile'' = Some v" and "truthy v" and "\<not> isString v"
  shows "start e (Object props) w = (Rejected (JError ''saveFile must be a path''), w)"
proof -
  have "destructure (Object props) = Some v"
    using assms(1) by simp
  then show ?thesis
    using assms(2,3) by (rule start_invalid)
qed

theorem start_rejects_truthy_non_string_witness:
  "[''saveFile'' \<mapsto> JNum 5] ''saveFile'' = Some (JNum 5) \<and>
   truthy (JNum 5) \<and> \<not> isString (JNum 5) \<and>
   start quiet_env (Object [''saveFile'' \<mapsto> JNum 5]) initial_world =
     (Rejected (JError ''saveFile must be a path''), initial_world)"
proof -
  have present: "[''saveFile'' \<mapsto> JNum 5] ''saveFile'' = Some (JNum 5)"
    by simp
  have t: "truthy (JNum 5)" and s: "\<not> isString (JNum 5)"
    by simp_all
  from start_rejects_truthy_non_string
         [of "[''saveFile'' \<mapsto> JNum 5]" "JNum 5" quiet_env initial_world, OF present t s]
  show ?thesis by simp
qed

text \<open>
  C5. For a \<open>saveFile\<close> that is a non-empty string, \<open>start\<close> first calls
  \<open>fs.ensureDir\<close> on \<open>path.dirname(saveFile)\<close> (fs-extra's recursive creation of the
  directory). Unless that promise resolves, \<open>start\<close> settles as it does, with the
  engine not opened and the handle untouched. Once it resolves, the engine is opened on
  the path with \<open>autoload\<close>; \<open>start\<close> stays pending until the engine calls
  \<open>autoloadCallback\<close>, rejects with the error the callback gets, and resolves only on a
  callback without error, and then the handle holds, in front of anything added,
  all the collections the engine loaded from the path.
\<close>

theorem start_file_backed:
  assumes "destructure arg = Some (JStr s)" and "s \<noteq> []"
  shows "\<exists>r w'. start e arg w = (r, w') \<and>
     (case ensureDir e (dirname e s) of
        Resolved \<Rightarrow>
          trace w' = trace w @ [EnsureDir (dirname e s), NewLoki s True] \<and>
          (case autoloadResult e s of
             None \<Rightarrow> r = Pending
           | Some (err, cs) \<Rightarrow>
               r = (if truthy err then Rejected err else Resolved) \<and>
               (\<exists>new. getDb w' =
                  Some \<lparr>filename = s, autoload = True, collections = cs @ new\<rparr>))
      | other \<Rightarrow>
          r = other \<and> trace w' = trace w @ [EnsureDir (dirname e s)] \<and> getDb w' = getDb w)"
proof (cases "ensureDir e (dirname e s)")
  case Resolved
  show ?thesis
  proof (cases "autoloadResult e s")
    case None
    with Resolved show ?thesis
      by (simp add: start_file [OF assms])
  next
    case (Some loaded)
    obtain err cs where loaded: "loaded = (err, cs)"
      by (cases loaded)
    let ?h = "\<lparr>filename = s, autoload = True, collections = cs\<rparr>"
    obtain new where "collections (ensureNodeCollections ?h) = collections ?h @ new"
      using collections_ensureNodeCollections by blast
    then have ensured: "ensureNodeCollections ?h =
        \<lparr>filename = s, autoload = True, collections = cs @ new\<rparr>"
      using ensureNodeCollections_filename [of ?h]
      by (cases "ensureNodeCollections ?h") simp
    show ?thesis
    proof (cases "truthy err")
      case True
      with Resolved Some loaded show ?thesis
        by (simp add: start_file [OF assms] getDb_def)
    next
      case False
      with Resolved Some loaded ensured show ?thesis
        by (simp add: start_file [OF assms] getDb_def)
    qed
  qed
next
  case (Rejected err)
  then show ?thesis
    by (simp add: start_file [OF assms] getDb_def)
next
  case Pending
  then show ?thesis
    by (simp add: start_file [OF assms] getDb_def)
qed

theorem start_file_backed_witness:
  "destructure sample_arg = Some (JStr ''/tmp/x/db.json'') \<and> ''/tmp/x/db.json'' \<noteq> [] \<and>
   ensureDir legacy_env (dirname legacy_env ''/tmp/x/db.json'') = Resolved \<and>
   (\<exists>r w'. start legacy_env sample_arg initial_world = (r, w') \<and>
      trace w' = trace initial_world @ [EnsureDir ''/tmp/x'', NewLoki ''/tmp/x/db.json'' True] \<and>
      r = Resolved \<and>
      (\<exists>new. getDb w' =
         Some \<lparr>filename = ''/tmp/x/db.json'', autoload = True,
               collections =
                 [\<lparr>cname = ''gatsby:nodeMeta'', coptions = \<lparr>unique = [], indices = []\<rparr>,
                   cdata = []\<rparr>] @ new\<rparr>))"
proof -
  have nonempty: "''/tmp/x/db.json'' \<noteq> []"
    by simp
  from start_file_backed [OF destructure_sample_arg nonempty, of legacy_env initial_world]
  show ?thesis
    by (simp add: destructure_sample_arg legacy_env_def quiet_env_def)
qed

text \<open>
  C6. With \<open>saveFile\<close> absent (no argument, or an object without the property)
  \<open>start\<close> resolves with a fresh handle that is named by what \<open>uuidv4()\<close> returned,
  opened without \<open>autoload\<close>, and holds the two new meta-collections only. The one call
  that leaves the module is the construction of the engine: no directory is ensured
  and nothing is saved.
\<close>

theorem start_without_saveFile:
  assumes "destructure arg = Some JUndefined"
  shows "start e arg w =
     (Resolved,
      w\<lparr>db := Some
              \<lparr>filename = uuidv4 e, autoload = False,
               collections =
                 [\<lparr>cname = ''gatsby:nodeMeta'',
                   coptions = \<lparr>unique = [''id''], indices = [''id'']\<rparr>, cdata = []\<rparr>,
                  \<lparr>cname = ''gatsby:nodeTypes'',
                   coptions = \<lparr>unique = [''type'', ''collName''], indices = [''type'']\<rparr>,
                   cdata = []\<rparr>]\<rparr>,
        trace := trace w @ [NewLoki (uuidv4 e) False]\<rparr>)"
proof -
  have "\<not> truthy JUndefined"
    by simp
  with assms show ?thesis
    by (simp add: start_in_memory ensureNodeCollections_fresh)
qed

theorem start_without_saveFile_witness:
  "destructure Omitted = Some JUndefined \<and>
   start quiet_env Omitted initial_world =
     (Resolved,
      \<lparr>db = Some
              \<lparr>filename = ''1b9d6bcd-bbfd-4b2d-9b5d-ab8dfbbd4bed'', autoload = False,
               collections =
                 [\<lparr>cname = ''gatsby:nodeMeta'',
                   coptions = \<lparr>unique = [''id''], indices = [''id'']\<rparr>, cdata = []\<rparr>,
                  \<lparr>cname = ''gatsby:nodeTypes'',
                   coptions = \<lparr>unique = [''type'', ''collName''], indices = [''type'']\<rparr>,
                   cdata = []\<rparr>]\<rparr>,
       trace = [NewLoki ''1b9d6bcd-bbfd-4b2d-9b5d-ab8dfbbd4bed'' False]\<rparr>)"
proof -
  have absent: "destructure Omitted = Some JUndefined"
    by simp
  from start_without_saveFile [OF absent, of quiet_env initial_world] show ?thesis
    by (simp add: quiet_env_def initial_world_def)
qed

text \<open>
  C7. With a handle, \<open>saveState\<close> calls \<open>db.saveDatabase\<close> exactly once. When the
  engine's callback gets an error (a truthy \<open>err\<close>) the promise is rejected with that
  very value; when it gets none (\<open>null\<close>, \<open>undefined\<close>) the promise resolves.
\<close>

theorem saveState_engine_result:
  assumes "getDb w = Some h" and "saveResult e h = Some err"
  shows "saveState e w =
     (if truthy err then Rejected err else Resolved,
      w\<lparr>trace := trace w @ [SaveDatabase h]\<rparr>)"
  using assms by (simp add: saveState_def getDb_def)

theorem saveState_engine_result_witness:
  "getDb \<lparr>db = Some \<lparr>filename = ''/tmp/x/db.json'', autoload = True, collections = []\<rparr>,
          trace = []\<rparr>
     = Some \<lparr>filename = ''/tmp/x/db.json'', autoload = True, collections = []\<rparr> \<and>
   saveResult diskfull_env \<lparr>filename = ''/tmp/x/db.json'', autoload = True, collections = []\<rparr>
     = Some (JObj 28) \<and>
   saveState diskfull_env
     \<lparr>db = Some \<lparr>filename = ''/tmp/x/db.json'', autoload = True, collections = []\<rparr>,
      trace = []\<rparr> =
     (Rejected (JObj 28),
      \<lparr>db = Some \<lparr>filename = ''/tmp/x/db.json'', autoload = True, collections = []\<rparr>,
       trace = [SaveDatabase
                  \<lparr>filename = ''/tmp/x/db.json'', autoload = True, collections = []\<rparr>]\<rparr>)"
proof -
  let ?h = "\<lparr>filename = ''/tmp/x/db.json'', autoload = True, collections = []\<rparr>"
  let ?w = "\<lparr>db = Some ?h, trace = []\<rparr>"
  have handle: "getDb ?w = Some ?h"
    by (simp add: getDb_def)
  have fails: "saveResult diskfull_env ?h = Some (JObj 28)"
    by (simp add: diskfull_env_def quiet_env_def)
  from saveState_engine_result [OF handle fails] handle fails show ?thesis
    by simp
qed

text \<open>
  C8, as stated: after a successful start with no \<open>saveFile\<close>, \<open>saveState\<close> fails for
  want of a database. It does not: the in-memory handle is a handle, \<open>saveState\<close>
  asks the engine to save it and resolves when the engine reports no error.
\<close>

theorem save_in_memory_counterexample:
  "fst (start quiet_env Omitted initial_world) = Resolved \<and>
   fst (saveState quiet_env (snd (start quiet_env Omitted initial_world))) = Resolved"
  by (simp add: start_in_memory [of _ JUndefined] saveState_def quiet_env_def)

text \<open>
  C8, amended. After a start that took the in-memory branch (\<open>saveFile\<close> absent or
  falsy), which always resolves, \<open>saveState\<close> does not take the branch of the missing
  database: it hands the in-memory handle, named by \<open>uuidv4()\<close>, to the engine's
  \<open>saveDatabase\<close> once, and settles as the engine's callback says: pending while the
  engine does not call back, rejected with the engine's error, resolved without one.
\<close>

theorem save_after_in_memory_start:
  assumes "destructure arg = Some v" and "\<not> truthy v"
  shows "\<exists>w' h. start e arg w = (Resolved, w') \<and> getDb w' = Some h \<and>
     filename h = uuidv4 e \<and>
     saveState e' w' =
       (case saveResult e' h of
          None \<Rightarrow> Pending
        | Some err \<Rightarrow> if truthy err then Rejected err else Resolved,
        w'\<lparr>trace := trace w' @ [SaveDatabase h]\<rparr>)"
  by (simp add: start_in_memory [OF assms] getDb_def saveState_def
        ensureNodeCollections_filename split: option.splits)

theorem save_after_in_memory_start_witness:
  "destructure Omitted = Some JUndefined \<and> \<not> truthy JUndefined \<and>
   (\<exists>w' h. start quiet_env Omitted initial_world = (Resolved, w') \<and> getDb w' = Some h \<and>
      filename h = ''1b9d6bcd-bbfd-4b2d-9b5d-ab8dfbbd4bed'' \<and>
      saveState diskfull_env w' =
        (Rejected (JObj 28), w'\<lparr>trace := trace w' @ [SaveDatabase h]\<rparr>))"
proof -
  have absent: "destructure Omitted = Some JUndefined" and falsy: "\<not> truthy JUndefined"
    by simp_all
  from save_after_in_memory_start [OF absent falsy, of quiet_env initial_world diskfull_env]
  show ?thesis
    by (simp add: quiet_env_def diskfull_env_def)
qed




text \<open>
  C10. A falsy \<open>saveFile\<close> (\<open>""\<close>, \<open>false\<close>, \<open>0\<close>, \<open>NaN\<close>, \<open>null\<close>, \<open>undefined\<close>)
  passes the argument check and is treated as absent: \<open>start\<close> does exactly what it
  does without an argument, that is, it resolves with an in-memory handle named by
  \<open>uuidv4()\<close>; \<open>fs.ensureDir\<close> is not called and no engine is opened on the value.
\<close>

theorem start_falsy_saveFile:
  assumes "props ''saveFile'' = Some v" and "\<not> truthy v"
  shows "start e (Object props) w = start e Omitted w \<and>
     fst (start e (Object props) w) = Resolved \<and>
     getDb (snd (start e (Object props) w)) =
       Some (ensureNodeCollections
              \<lparr>filename = uuidv4 e, autoload = False, collections = []\<rparr>) \<and>
     trace (snd (start e (Object props) w)) = trace w @ [NewLoki (uuidv4 e) False]"
proof -
  have given: "destructure (Object props) = Some v"
    using assms(1) by simp
  have absent: "destructure Omitted = Some JUndefined" "\<not> truthy JUndefined"
    by simp_all
  show ?thesis
    by (simp add: start_in_memory [OF given assms(2)] start_in_memory [OF absent] getDb_def)
qed

theorem start_falsy_saveFile_witness:
  "[''saveFile'' \<mapsto> JStr ''''] ''saveFile'' = Some (JStr '''') \<and> \<not> truthy (JStr '''') \<and>
   start quiet_env (Object [''saveFile'' \<mapsto> JStr '''']) initial_world =
     start quiet_env Omitted initial_world \<and>
   fst (start quiet_env (Object [''saveFile'' \<mapsto> JStr '''']) initial_world) = Resolved \<and>
   trace (snd (start quiet_env (Object [''saveFile'' \<mapsto> JStr '''']) initial_world)) =
     [NewLoki ''1b9d6bcd-bbfd-4b2d-9b5d-ab8dfbbd4bed'' False]"
proof -
  have present: "[''saveFile'' \<mapsto> JStr ''''] ''saveFile'' = Some (JStr '''')"
    by simp
  have falsy: "\<not> truthy (JStr '''')"
    by simp
  note run = start_falsy_saveFile
         [of "[''saveFile'' \<mapsto> JStr '''']" "JStr ''''" quiet_env initial_world,
          OF present falsy]
  from run have same:
    "start quiet_env (Object [''saveFile'' \<mapsto> JStr '''']) initial_world =
       start quiet_env Omitted initial_world"
    by (rule conjunct1)
  from run have resolved:
    "fst (start quiet_env (Object [''saveFile'' \<mapsto> JStr '''']) initial_world) = Resolved"
    by blast
  from run have events:
    "trace (snd (start quiet_env (Object [''saveFile'' \<mapsto> JStr '''']) initial_world)) =
       trace initial_world @ [NewLoki (uuidv4 quiet_env) False]"
    by blast
  have "trace initial_world @ [NewLoki (uuidv4 quiet_env) False] =
      [NewLoki ''1b9d6bcd-bbfd-4b2d-9b5d-ab8dfbbd4bed'' False]"
    by (simp add: quiet_env_def initial_world_def)
  with events have events':
    "trace (snd (start quiet_env (Object [''saveFile'' \<mapsto> JStr '''']) initial_world)) =
       [NewLoki ''1b9d6bcd-bbfd-4b2d-9b5d-ab8dfbbd4bed'' False]"
    by (rule trans)
  from present falsy same resolved events' show ?thesis
    by blast
qed

end
